theory Spec2Isabelle
  imports Complex_Main "HOL-Library.Word" "HOL-Library.Multiset"
begin

section \<open>CSV visualizer: data model\<close>



datatype series =
    Int64Col "64 word list"
  | Float64Col "real option list"
  | BoolCol "bool list"
  | ObjectCol "string option list"

record dataframe =
  index :: "nat list"
  columns :: "(string \<times> series) list"

datatype py_error =
    KeyError
  | TypeError
  | NotNumeric
  | ZeroDivision

datatype load_error =
    FileNotFoundError
  | CsvFileIsEmpty
  | CsvFileContainsNoData
  | NoNumericColumnsFound
  | SampleValueError
  | ParserValueError
  | RuntimeError

datatype read_error = ReadFileNotFound | ReadEmptyData | ReadValueError | ReadOther

datatype message = InfoSampled int | WarningColumnNotFound string

record visualizer =
  csv_path :: string
  filter_columns :: "string list option"
  bins :: int
  sample_size :: "int option"
  histogram_width :: int
  show_all_stats :: bool
  random_state :: "32 word"
  data :: "dataframe option"
  numeric_columns :: "string list"
  quiet_mode :: bool

record column_statistics =
  st_column :: string
  st_count :: nat
  st_missing :: nat
  st_min :: real
  st_max :: real
  st_mean :: real
  st_median :: real
  st_q25 :: real
  st_q75 :: real
  st_std :: "real option"
  st_range :: real
  st_iqr :: real
  st_cv :: "real option"

record load_result =
  lr_self :: visualizer
  lr_raised :: "load_error option"
  lr_stdout :: "message list"

subsection \<open>Frames and series\<close>

text \<open>\<^verbatim>\<open>len(self.data)\<close>: the number of rows.\<close>

definition nrows :: "dataframe \<Rightarrow> nat" where
  "nrows d = length (index d)"

fun series_len :: "series \<Rightarrow> nat" where
  "series_len (Int64Col xs) = length xs"
| "series_len (Float64Col xs) = length xs"
| "series_len (BoolCol xs) = length xs"
| "series_len (ObjectCol xs) = length xs"

text \<open>\<^verbatim>\<open>Series.isna()\<close>: one flag per row. Integer and boolean columns hold no missing cell.\<close>

fun isna :: "series \<Rightarrow> bool list" where
  "isna (Int64Col xs) = map (\<lambda>_. False) xs"
| "isna (Float64Col xs) = map (\<lambda>x. x = None) xs"
| "isna (BoolCol xs) = map (\<lambda>_. False) xs"
| "isna (ObjectCol xs) = map (\<lambda>x. x = None) xs"

text \<open>\<^verbatim>\<open>Series.dropna()\<close>: the series without its missing cells.\<close>

fun dropna :: "series \<Rightarrow> series" where
  "dropna (Int64Col xs) = Int64Col xs"
| "dropna (Float64Col xs) = Float64Col (filter (\<lambda>x. x \<noteq> None) xs)"
| "dropna (BoolCol xs) = BoolCol xs"
| "dropna (ObjectCol xs) = ObjectCol (filter (\<lambda>x. x \<noteq> None) xs)"

text \<open>\<^verbatim>\<open>isna().sum()\<close> and \<^verbatim>\<open>notna().any()\<close>.\<close>

definition isna_sum :: "series \<Rightarrow> nat" where
  "isna_sum s = length (filter (\<lambda>b. b) (isna s))"

definition notna_any :: "series \<Rightarrow> bool" where
  "notna_any s = list_ex (\<lambda>b. \<not> b) (isna s)"

text \<open>\<^verbatim>\<open>self.data[column]\<close>: the column of that name, KeyError when there is none.\<close>

definition get_col :: "dataframe \<Rightarrow> string \<Rightarrow> series option" where
  "get_col d c = map_of (columns d) c"

text \<open>\<^verbatim>\<open>select_dtypes(include=["number"])\<close> keeps int64 and float64 columns.\<close>

fun is_number :: "series \<Rightarrow> bool" where
  "is_number (Int64Col xs) = True"
| "is_number (Float64Col xs) = True"
| "is_number (BoolCol xs) = False"
| "is_number (ObjectCol xs) = False"

text \<open>
  A frame as \<^verbatim>\<open>read_csv\<close> builds it: every column has one cell per row, and the
  column names are distinct (duplicate header names are renamed by the parser).
\<close>

definition wf_frame :: "dataframe \<Rightarrow> bool" where
  "wf_frame d \<longleftrightarrow>
     list_all (\<lambda>(c, s). series_len s = nrows d) (columns d) \<and> distinct (map fst (columns d))"

text \<open>\<^verbatim>\<open>DataFrame.empty\<close>: no rows or no columns.\<close>

definition df_empty :: "dataframe \<Rightarrow> bool" where
  "df_empty d \<longleftrightarrow> index d = [] \<or> columns d = []"

subsection \<open>Reductions of a numeric series\<close>

text \<open>The non-missing cells of a numeric column as floats.\<close>

fun float_values :: "series \<Rightarrow> real list" where
  "float_values (Int64Col xs) = map (\<lambda>w. real_of_int (sint w)) xs"
| "float_values (Float64Col xs) = map the (filter (\<lambda>x. x \<noteq> None) xs)"
| "float_values (BoolCol xs) = map (\<lambda>b. if b then 1 else 0) xs"
| "float_values (ObjectCol xs) = []"

definition list_min :: "'a::linorder list \<Rightarrow> 'a" where
  "list_min xs = fold min (tl xs) (hd xs)"

definition list_max :: "'a::linorder list \<Rightarrow> 'a" where
  "list_max xs = fold max (tl xs) (hd xs)"

text \<open>Subtraction of two numpy int64 scalars: the result is again int64 and wraps.\<close>

definition int64_sub :: "int \<Rightarrow> int \<Rightarrow> int" where
  "int64_sub a b = sint ((word_of_int a :: 64 word) - word_of_int b)"

text \<open>
  \<^verbatim>\<open>col_data.min()\<close>, \<^verbatim>\<open>col_data.max()\<close> and \<^verbatim>\<open>col_data.max() - col_data.min()\<close>,
  each then passed to \<^verbatim>\<open>float(...)\<close>. On an int64 column the two extremes are int64
  scalars, so the difference is taken in int64 before the conversion.
\<close>

fun float_min :: "series \<Rightarrow> real" where
  "float_min (Int64Col xs) = real_of_int (list_min (map sint xs))"
| "float_min s = list_min (float_values s)"

fun float_max :: "series \<Rightarrow> real" where
  "float_max (Int64Col xs) = real_of_int (list_max (map sint xs))"
| "float_max s = list_max (float_values s)"

fun float_range :: "series \<Rightarrow> real" where
  "float_range (Int64Col xs) =
     real_of_int (int64_sub (list_max (map sint xs)) (list_min (map sint xs)))"
| "float_range s = list_max (float_values s) - list_min (float_values s)"

definition mean :: "real list \<Rightarrow> real" where
  "mean xs = sum_list xs / real (length xs)"

text \<open>
  \<^verbatim>\<open>Series.median()\<close>: the middle order statistic, or the average of the two middle
  ones for an even count.
\<close>

definition median :: "real list \<Rightarrow> real" where
  "median xs =
     (let s = sort xs; n = length s
      in if odd n then s ! (n div 2) else (s ! (n div 2 - 1) + s ! (n div 2)) / 2)"

text \<open>
  \<^verbatim>\<open>Series.quantile(q)\<close> with the default linear interpolation: the virtual index
  \<open>q * (n - 1)\<close> into the sorted values, interpolated between its two neighbours.
\<close>

definition interpolate :: "real list \<Rightarrow> real \<Rightarrow> real" where
  "interpolate s p =
     (let lo = nat \<lfloor>p\<rfloor>;
          hi = min (lo + 1) (length s - 1);
          g = p - real lo
      in s ! lo + (s ! hi - s ! lo) * g)"

definition quantile :: "real list \<Rightarrow> real \<Rightarrow> real" where
  "quantile xs q = interpolate (sort xs) (q * real (length xs - 1))"

text \<open>
  \<^verbatim>\<open>Series.std()\<close>: the sample standard deviation (denominator \<open>n - 1\<close>); NaN, here
  \<open>None\<close>, for a single value.
\<close>

definition std :: "real list \<Rightarrow> real option" where
  "std xs =
     (if length xs < 2 then None
      else Some (sqrt (sum_list (map (\<lambda>x. (x - mean xs)\<^sup>2) xs) / real (length xs - 1))))"

text \<open>
  Float division with a NaN-able dividend. numpy would answer a zero divisor with
  inf or NaN and a warning; the model reports it as \<open>ZeroDivision\<close>, so that reaching
  such a division is visible in the result.
\<close>

definition float_div :: "real option \<Rightarrow> real \<Rightarrow> py_error + real option" where
  "float_div a b = (if b = 0 then Inl ZeroDivision else Inr (map_option (\<lambda>x. x / b) a))"

text \<open>\<^verbatim>\<open>col_data.std() / col_data.mean() if col_data.mean() != 0 else 0\<close>\<close>

definition coeff_variation :: "real list \<Rightarrow> py_error + real option" where
  "coeff_variation xs = (if mean xs \<noteq> 0 then float_div (std xs) (mean xs) else Inr (Some 0))"

section \<open>Statistics engine\<close>

text \<open>
  \<^verbatim>\<open>calculate_statistics\<close>. \<open>Inr None\<close> is the empty dict returned for a column without
  a non-missing value. \<open>TypeError\<close> is the subscript of \<^verbatim>\<open>self.data\<close> before any load,
  \<open>KeyError\<close> an unknown column. On a boolean or text column one of the conversions
  or reductions raises (a ValueError of \<^verbatim>\<open>float\<close> or a TypeError of numpy), reported
  as \<open>NotNumeric\<close>. The optional skew and kurtosis entries are left out.
\<close>

definition calculate_statistics :: "visualizer \<Rightarrow> string \<Rightarrow> py_error + column_statistics option" where
  "calculate_statistics v column =
     (case data v of
        None \<Rightarrow> Inl TypeError
      | Some d \<Rightarrow>
        (case get_col d column of
           None \<Rightarrow> Inl KeyError
         | Some col \<Rightarrow>
           (let col_data = dropna col in
            if series_len col_data = 0 then Inr None
            else if \<not> is_number col_data then Inl NotNumeric
            else
              (case coeff_variation (float_values col_data) of
                 Inl e \<Rightarrow> Inl e
               | Inr cv \<Rightarrow>
                 Inr (Some \<lparr>
                   st_column = column,
                   st_count = series_len col_data,
                   st_missing = isna_sum col,
                   st_min = float_min col_data,
                   st_max = float_max col_data,
                   st_mean = mean (float_values col_data),
                   st_median = median (float_values col_data),
                   st_q25 = quantile (float_values col_data) (25 / 100),
                   st_q75 = quantile (float_values col_data) (75 / 100),
                   st_std = std (float_values col_data),
                   st_range = float_range col_data,
                   st_iqr = quantile (float_values col_data) (75 / 100)
                            - quantile (float_values col_data) (25 / 100),
                   st_cv = cv \<rparr>)))))"

section \<open>Histogram engine\<close>





















section \<open>Data loader\<close>

text \<open>
  \<^verbatim>\<open>CSVVisualizer.__init__\<close>: the object as constructed, before any load. The table of
  format templates plays no part in what follows and is left out.
\<close>

definition init :: "string \<Rightarrow> string list option \<Rightarrow> int \<Rightarrow> int option \<Rightarrow> int \<Rightarrow> bool \<Rightarrow> 32 word \<Rightarrow> visualizer" where
  "init path cols b s w a seed =
     \<lparr> csv_path = path, filter_columns = cols, bins = b, sample_size = s,
       histogram_width = w, show_all_stats = a, random_state = seed,
       data = None, numeric_columns = [], quiet_mode = False \<rparr>"

text \<open>
  \<^verbatim>\<open>DataFrame.sample(n=n, random_state=seed)\<close> draws without replacement: it takes the
  first \<open>n\<close> entries of the permutation of the row positions that a generator seeded
  with \<open>seed\<close> produces. The generator is a parameter \<open>perm\<close> of the model
  (\<open>perm seed N\<close> being that permutation of \<open>[0..<N]\<close>). A negative \<open>n\<close>, or one
  above the row count, raises ValueError (\<open>None\<close>).
\<close>

type_synonym sampler = "32 word \<Rightarrow> nat \<Rightarrow> nat list"

fun series_take :: "series \<Rightarrow> nat list \<Rightarrow> series" where
  "series_take (Int64Col xs) locs = Int64Col (map (\<lambda>i. xs ! i) locs)"
| "series_take (Float64Col xs) locs = Float64Col (map (\<lambda>i. xs ! i) locs)"
| "series_take (BoolCol xs) locs = BoolCol (map (\<lambda>i. xs ! i) locs)"
| "series_take (ObjectCol xs) locs = ObjectCol (map (\<lambda>i. xs ! i) locs)"

definition take_rows :: "dataframe \<Rightarrow> nat list \<Rightarrow> dataframe" where
  "take_rows d locs =
     \<lparr> index = map (\<lambda>i. index d ! i) locs,
       columns = map (\<lambda>(c, s). (c, series_take s locs)) (columns d) \<rparr>"

definition df_sample :: "sampler \<Rightarrow> dataframe \<Rightarrow> int \<Rightarrow> 32 word \<Rightarrow> dataframe option" where
  "df_sample perm d n seed =
     (if n < 0 \<or> int (nrows d) < n then None
      else Some (take_rows d (take (nat n) (perm seed (nrows d)))))"

text \<open>
  The sampling step, lines 67 to 71. The guard \<^verbatim>\<open>self.sample_size and ...\<close> is false for
  \<^verbatim>\<open>None\<close> and for 0. The result is the frame to go on with and what was printed, or
  \<open>None\<close> when \<^verbatim>\<open>sample\<close> raised.
\<close>

definition sample_step :: "sampler \<Rightarrow> visualizer \<Rightarrow> dataframe \<Rightarrow> (dataframe \<times> message list) option" where
  "sample_step perm v d =
     (case sample_size v of
        None \<Rightarrow> Some (d, [])
      | Some n \<Rightarrow>
          if n \<noteq> 0 \<and> n < int (nrows d) then
            (case df_sample perm d n (random_state v) of
               None \<Rightarrow> None
             | Some d' \<Rightarrow> Some (d', if quiet_mode v then [] else [InfoSampled n]))
          else Some (d, []))"

text \<open>The column selection, lines 73 to 88, with the warnings it prints.\<close>

definition column_names :: "dataframe \<Rightarrow> string list" where
  "column_names d = map fst (columns d)"

definition not_all_missing :: "dataframe \<Rightarrow> string \<Rightarrow> bool" where
  "not_all_missing d c = (case get_col d c of None \<Rightarrow> False | Some s \<Rightarrow> notna_any s)"

definition select_columns :: "visualizer \<Rightarrow> dataframe \<Rightarrow> string list \<times> message list" where
  "select_columns v d =
     (let numeric_cols = map fst (filter (\<lambda>(c, s). is_number s) (columns d));
          numeric_cols = filter (not_all_missing d) numeric_cols
      in case filter_columns v of
           None \<Rightarrow> (numeric_cols, [])
         | Some cs \<Rightarrow>
             if cs = [] then (numeric_cols, [])
             else
               (let valid_columns = filter (\<lambda>c. c \<in> set (column_names d)) cs;
                    warnings = (if quiet_mode v then []
                                else map WarningColumnNotFound
                                       (filter (\<lambda>c. c \<notin> set (column_names d)) cs))
                in (filter (\<lambda>c. c \<in> set valid_columns) numeric_cols, warnings)))"


text \<open>
  \<^verbatim>\<open>load_and_prepare_data\<close>. \<open>rd\<close> is what \<^verbatim>\<open>pd.read_csv(self.csv_path)\<close> does on the
  source: an exception or a frame. The result is the object after the call, the exception
  that left the method (if one did) and the lines printed.
\<close>

definition raise_error :: "visualizer \<Rightarrow> load_error \<Rightarrow> message list \<Rightarrow> load_result" where
  "raise_error v e out = \<lparr> lr_self = v, lr_raised = Some e, lr_stdout = out \<rparr>"

definition load_and_prepare_data :: "sampler \<Rightarrow> read_error + dataframe \<Rightarrow> visualizer \<Rightarrow> load_result" where
  "load_and_prepare_data perm rd v =
     (case rd of
        Inl ReadFileNotFound \<Rightarrow> raise_error v FileNotFoundError []
      | Inl ReadEmptyData \<Rightarrow> raise_error v CsvFileIsEmpty []
      | Inl ReadValueError \<Rightarrow> raise_error v ParserValueError []
      | Inl ReadOther \<Rightarrow> raise_error v RuntimeError []
      | Inr d \<Rightarrow>
          if df_empty d then raise_error (v\<lparr>data := Some d\<rparr>) CsvFileContainsNoData []
          else
            (case sample_step perm v d of
               None \<Rightarrow> raise_error (v\<lparr>data := Some d\<rparr>) SampleValueError []
             | Some (d', info) \<Rightarrow>
                 (let (numeric_cols, warnings) = select_columns v d';
                      v' = v\<lparr>data := Some d', numeric_columns := numeric_cols\<rparr>
                  in if numeric_cols = []
                     then raise_error v' NoNumericColumnsFound (info @ warnings)
                     else \<lparr> lr_self = v', lr_raised = None, lr_stdout = info @ warnings \<rparr>)))"

section \<open>Example inputs\<close>

definition ex_frame :: dataframe where
  "ex_frame = \<lparr> index = [0, 1, 2, 3],
      columns = [(''a'', Float64Col [Some 1, None, Some 3, Some 2]),
                 (''z'', Float64Col [Some (-1), Some 1, None, None]),
                 (''name'', ObjectCol [Some ''x'', Some ''y'', None, Some ''w'']),
                 (''k'', Int64Col [5, 7, 7, 9])] \<rparr>"

definition ex_vis :: visualizer where
  "ex_vis = \<lparr> csv_path = ''data.csv'', filter_columns = None, bins = 2, sample_size = None,
      histogram_width = 4, show_all_stats = False, random_state = 42,
      data = Some ex_frame, numeric_columns = [''a'', ''z'', ''k''], quiet_mode = False \<rparr>"

definition ex_stats_a :: column_statistics where
  "ex_stats_a = \<lparr> st_column = ''a'', st_count = 3, st_missing = 1, st_min = 1, st_max = 3,
      st_mean = 2, st_median = 2, st_q25 = 3 / 2, st_q75 = 5 / 2, st_std = Some 1,
      st_range = 2, st_iqr = 1, st_cv = Some (1 / 2) \<rparr>"

definition ex_stats_z :: column_statistics where
  "ex_stats_z = \<lparr> st_column = ''z'', st_count = 2, st_missing = 2, st_min = - 1, st_max = 1,
      st_mean = 0, st_median = 0, st_q25 = - 1 / 2, st_q75 = 1 / 2, st_std = Some (sqrt 2),
      st_range = 2, st_iqr = 1, st_cv = Some 0 \<rparr>"

definition ex_wide_frame :: dataframe where
  "ex_wide_frame = \<lparr> index = [0, 1, 2],
      columns = [(''x'', Int64Col [- 6917529027641081856, 0, 6917529027641081856])] \<rparr>"

definition ex_wide_vis :: visualizer where
  "ex_wide_vis = ex_vis \<lparr> data := Some ex_wide_frame, numeric_columns := [''x''] \<rparr>"

definition ex_stats_wide :: column_statistics where
  "ex_stats_wide = \<lparr> st_column = ''x'', st_count = 3, st_missing = 0,
      st_min = - 6917529027641081856, st_max = 6917529027641081856,
      st_mean = 0, st_median = 0, st_q25 = - 3458764513820540928, st_q75 = 3458764513820540928,
      st_std = Some 6917529027641081856,
      st_range = - 4611686018427387904, st_iqr = 6917529027641081856, st_cv = Some 0 \<rparr>"





definition ex_perm :: sampler where
  "ex_perm seed n = rev [0..<n]"

definition ex_sampled :: dataframe where
  "ex_sampled = \<lparr> index = [3, 2],
      columns = [(''a'', Float64Col [Some 2, Some 3]),
                 (''z'', Float64Col [None, None]),
                 (''name'', ObjectCol [Some ''w'', None]),
                 (''k'', Int64Col [9, 7])] \<rparr>"


definition ex_loader_copy :: visualizer where
  "ex_loader_copy = (init ''copy.csv'' None 5 (Some 2) 40 True 42) \<lparr> quiet_mode := True \<rparr>"


section \<open>Basic facts\<close>

lemmas stat_defs = calculate_statistics_def get_col_def mean_def median_def quantile_def
  interpolate_def std_def coeff_variation_def float_div_def isna_sum_def list_min_def
  list_max_def int64_sub_def

lemma present_plus_absent:
  "length (filter (\<lambda>x. \<exists>y. x = Some y) xs)
     + length (filter ((\<lambda>b. b) \<circ> (\<lambda>x. x = None)) xs) = length xs"
  by (induction xs) auto

lemma dropna_len: "series_len (dropna s) + isna_sum s = series_len s"
  by (cases s) (simp_all add: isna_sum_def present_plus_absent)

lemma get_col_mem: "get_col d c = Some s \<Longrightarrow> (c, s) \<in> set (columns d)"
  by (simp add: get_col_def map_of_SomeD)

lemma wf_frame_len: "wf_frame d \<Longrightarrow> get_col d c = Some s \<Longrightarrow> series_len s = nrows d"
  by (auto simp: wf_frame_def list_all_iff dest!: get_col_mem)

lemma calculate_statistics_SomeD:
  assumes "calculate_statistics v c = Inr (Some st)"
  obtains d col where "data v = Some d" "get_col d c = Some col"
    "series_len (dropna col) \<noteq> 0" "is_number (dropna col)"
    "st_count st = series_len (dropna col)" "st_missing st = isna_sum col"
    "st_min st = float_min (dropna col)" "st_max st = float_max (dropna col)"
    "st_mean st = mean (float_values (dropna col))"
    "st_median st = median (float_values (dropna col))"
    "st_q25 st = quantile (float_values (dropna col)) (25 / 100)"
    "st_q75 st = quantile (float_values (dropna col)) (75 / 100)"
    "st_std st = std (float_values (dropna col))"
    "st_range st = float_range (dropna col)"
    "st_iqr st = st_q75 st - st_q25 st"
    "coeff_variation (float_values (dropna col)) = Inr (st_cv st)"
  using assms unfolding calculate_statistics_def Let_def
  by (auto split: option.splits if_splits sum.splits)

lemma coeff_variation_total: "\<exists>cv. coeff_variation xs = Inr cv"
  by (simp add: coeff_variation_def float_div_def)

lemma ex_frame_wf: "wf_frame ex_frame"
  by (simp add: wf_frame_def ex_frame_def nrows_def)

lemma ex_stats_a_eval: "calculate_statistics ex_vis ''a'' = Inr (Some ex_stats_a)"
  by (simp add: stat_defs ex_vis_def ex_frame_def ex_stats_a_def Let_def power2_eq_square)

lemma ex_stats_z_eval: "calculate_statistics ex_vis ''z'' = Inr (Some ex_stats_z)"
  by (simp add: stat_defs ex_vis_def ex_frame_def ex_stats_z_def Let_def power2_eq_square)

section \<open>Missing-value accounting\<close>

text \<open>
  Claim C3. In a frame whose columns all have one cell per row, the number of non-missing
  cells of a column plus the number of its missing cells is the row count, and whenever
  \<open>calculate_statistics\<close> returns a record for the column, its \<open>count\<close> and
  \<open>missing\<close> entries add up to the row count.
\<close>

theorem count_plus_missing:
  assumes "wf_frame d" and "data v = Some d" and "get_col d c = Some s"
  shows "series_len (dropna s) + isna_sum s = nrows d \<and>
         (\<forall>st. calculate_statistics v c = Inr (Some st) \<longrightarrow>
                st_count st + st_missing st = nrows d)"
proof -
  have n: "series_len (dropna s) + isna_sum s = nrows d"
    using dropna_len [of s] wf_frame_len [OF assms(1,3)] by simp
  have "st_count st + st_missing st = nrows d"
    if "calculate_statistics v c = Inr (Some st)" for st
    using that assms(2,3) n by (elim calculate_statistics_SomeD) simp
  with n show ?thesis by blast
qed

theorem count_plus_missing_witness:
  "wf_frame ex_frame \<and> data ex_vis = Some ex_frame
   \<and> get_col ex_frame ''a'' = Some (Float64Col [Some 1, None, Some 3, Some 2])
   \<and> calculate_statistics ex_vis ''a'' = Inr (Some ex_stats_a)
   \<and> st_count ex_stats_a = 3 \<and> st_missing ex_stats_a = 1 \<and> nrows ex_frame = 4
   \<and> st_count ex_stats_a + st_missing ex_stats_a = nrows ex_frame"
proof -
  have d: "data ex_vis = Some ex_frame"
    by (simp add: ex_vis_def)
  have c: "get_col ex_frame ''a'' = Some (Float64Col [Some 1, None, Some 3, Some 2])"
    by (simp add: get_col_def ex_frame_def)
  have "st_count ex_stats_a + st_missing ex_stats_a = nrows ex_frame"
    using count_plus_missing [OF ex_frame_wf d c] ex_stats_a_eval by blast
  then show ?thesis
    using ex_frame_wf d c ex_stats_a_eval by (simp add: ex_stats_a_def ex_frame_def nrows_def)
qed

section \<open>Coefficient of variation\<close>

text \<open>
  Claim C7. \<open>calculate_statistics\<close> never performs the division with a zero mean (the
  model would report \<open>ZeroDivision\<close>), and in every record it returns the \<open>cv\<close>
  entry is the standard deviation divided by the mean when the mean is not zero, and 0
  when the mean is zero.
\<close>

theorem cv_guarded:
  "calculate_statistics v c \<noteq> Inl ZeroDivision \<and>
   (calculate_statistics v c = Inr (Some st) \<longrightarrow>
      st_cv st = (if st_mean st \<noteq> 0 then map_option (\<lambda>s. s / st_mean st) (st_std st)
                  else Some 0))"
proof
  show "calculate_statistics v c \<noteq> Inl ZeroDivision"
    using coeff_variation_total
    unfolding calculate_statistics_def Let_def
    by (auto split: option.splits sum.splits) (metis Inl_Inr_False)
  show "calculate_statistics v c = Inr (Some st) \<longrightarrow>
      st_cv st = (if st_mean st \<noteq> 0 then map_option (\<lambda>s. s / st_mean st) (st_std st)
                  else Some 0)"
  proof
    assume "calculate_statistics v c = Inr (Some st)"
    then show "st_cv st = (if st_mean st \<noteq> 0
        then map_option (\<lambda>s. s / st_mean st) (st_std st) else Some 0)"
      by (elim calculate_statistics_SomeD)
         (auto simp: coeff_variation_def float_div_def split: if_splits)
  qed
qed

theorem cv_guarded_witness:
  "calculate_statistics ex_vis ''a'' = Inr (Some ex_stats_a)
   \<and> st_mean ex_stats_a = 2 \<and> st_std ex_stats_a = Some 1 \<and> st_cv ex_stats_a = Some (1 / 2)
   \<and> calculate_statistics ex_vis ''z'' = Inr (Some ex_stats_z)
   \<and> st_mean ex_stats_z = 0 \<and> st_cv ex_stats_z = Some 0"
proof -
  have a: "st_cv ex_stats_a = (if st_mean ex_stats_a \<noteq> 0
      then map_option (\<lambda>s. s / st_mean ex_stats_a) (st_std ex_stats_a) else Some 0)"
    using cv_guarded [of ex_vis "''a''" ex_stats_a] ex_stats_a_eval by blast
  have z: "st_cv ex_stats_z = (if st_mean ex_stats_z \<noteq> 0
      then map_option (\<lambda>s. s / st_mean ex_stats_z) (st_std ex_stats_z) else Some 0)"
    using cv_guarded [of ex_vis "''z''" ex_stats_z] ex_stats_z_eval by blast
  have "st_mean ex_stats_a = 2" "st_std ex_stats_a = Some 1" "st_mean ex_stats_z = 0"
    by (simp_all add: ex_stats_a_def ex_stats_z_def)
  with a z show ?thesis
    using ex_stats_a_eval ex_stats_z_eval by simp
qed

section \<open>Order of the five-number summary\<close>




















section \<open>Derived fields\<close>

lemma ex_wide_std: "std [- 6917529027641081856, 0, 6917529027641081856] = Some 6917529027641081856"
proof -
  have "sqrt (6917529027641081856\<^sup>2) = 6917529027641081856"
    by (rule real_sqrt_abs2 [THEN trans] | simp)+
  then show ?thesis
    by (simp add: std_def mean_def power2_eq_square)
qed

lemma ex_stats_wide_eval: "calculate_statistics ex_wide_vis ''x'' = Inr (Some ex_stats_wide)"
  by (simp add: calculate_statistics_def get_col_def mean_def median_def quantile_def
      interpolate_def coeff_variation_def float_div_def isna_sum_def list_min_def
      list_max_def int64_sub_def ex_wide_std
      ex_wide_vis_def ex_vis_def ex_wide_frame_def ex_stats_wide_def Let_def)


lemma iqr_exact:
  assumes "calculate_statistics v c = Inr (Some st)"
  shows "st_iqr st = st_q75 st - st_q25 st"
  using assms by (elim calculate_statistics_SomeD)

lemma range_exact_on_float64:
  assumes "calculate_statistics v c = Inr (Some st)" and "data v = Some d"
    and "get_col d c = Some (Float64Col xs)"
  shows "st_range st = st_max st - st_min st"
  using assms by (elim calculate_statistics_SomeD) auto

text \<open>
  Claim C2. The claim asks for \<open>range = max - min\<close> in every record. On the int64
  column \<open>[-6917529027641081856, 0, 6917529027641081856]\<close> the record has
  \<open>range = -4611686018427387904\<close>, while \<open>max - min = 13835058055282163712\<close>: the
  difference of the two int64 extremes wraps around before it is converted to a float.
\<close>

theorem range_wraps_on_int64:
  "calculate_statistics ex_wide_vis ''x'' = Inr (Some ex_stats_wide)
   \<and> st_range ex_stats_wide = - 4611686018427387904
   \<and> st_max ex_stats_wide - st_min ex_stats_wide = 13835058055282163712"
  using ex_stats_wide_eval by (simp add: ex_stats_wide_def)


section \<open>Histograms: binning\<close>










section \<open>Histograms: the two renders\<close>























subsection \<open>Length of the inline render\<close>






subsection \<open>Bars of the wide render\<close>






subsection \<open>The insufficient-data sentinel\<close>






section \<open>Loading\<close>










lemmas load_defs = load_and_prepare_data_def raise_error_def sample_step_def df_sample_def
  take_rows_def select_columns_def column_names_def not_all_missing_def notna_any_def get_col_def
  df_empty_def nrows_def init_def ex_perm_def



lemma ex_load_copy:
  "load_and_prepare_data ex_perm (Inr ex_frame) ex_loader_copy =
     \<lparr> lr_self = ex_loader_copy \<lparr> data := Some ex_sampled, numeric_columns := [''a'', ''k''] \<rparr>,
       lr_raised = None, lr_stdout = [] \<rparr>"
  by (simp add: load_defs ex_loader_copy_def ex_frame_def ex_sampled_def)




subsection \<open>Sampling\<close>






subsection \<open>Column selection\<close>






subsection \<open>Determinism\<close>



end
